theory Spec2Isabelle
  imports Main "HOL-Library.Char_ord" "HOL-Library.List_Lexorder" "HOL-Library.AList" "HOL-Library.Multiset"
begin

section \<open>Python values and built-ins used by the client\<close>

text \<open>
  The client is Python. Its integers are unbounded (\<open>int\<close>), its strings are modelled as
  \<open>string\<close> over ASCII, a decoded JSON document is a \<open>jvalue\<close> (an object is the list of
  its members in insertion order, as a Python \<open>dict\<close> keeps them; \<open>None\<close> is \<open>JNull\<close>), and
  every exception the code can raise is a value of \<open>error\<close>.
  Several distinct failures are all \<open>ValueError\<close> in Python; the argument of the
  constructor records where the exception comes from, so that the range check of
  \<open>compute_date_interval\<close> can be told apart from a failing \<open>int()\<close>, \<open>min()\<close>,
  \<open>list.index\<close> or \<open>range()\<close>.
\<close>

datatype jvalue =
    JNull
  | JBool bool
  | JInt int
  | JFloat int int string     \<comment> \<open>a float: the value \<open>m * 2 ^ e\<close> of the double, and its \<open>repr\<close>\<close>
  | JStr string
  | JArr "jvalue list"
  | JObj "(string \<times> jvalue) list"

datatype value_error =
    InvalidLiteral string     \<comment> \<open>\<open>int(s)\<close> on a string that is no integer literal\<close>
  | EmptySequence             \<comment> \<open>\<open>min()\<close> of an empty list\<close>
  | NotInList string          \<comment> \<open>\<open>list.index(x)\<close> with \<open>x\<close> absent\<close>
  | InvalidRange string       \<comment> \<open>raised by \<open>compute_date_interval\<close>, with its message\<close>
  | ConcurrentLimit int       \<comment> \<open>raised by the setter of \<open>maximum_concurrent_number\<close>\<close>
  | ZeroStep                  \<comment> \<open>\<open>range(a, b, 0)\<close>\<close>

datatype error =
    ValueError value_error
  | AttributeError            \<comment> \<open>attribute access on a value that lacks it (\<open>None.url\<close>, \<open>[].get\<close>)\<close>
  | TypeError                 \<comment> \<open>iteration, membership, ordering or unpacking at a wrong type\<close>
  | KeyError string           \<comment> \<open>\<open>d[k]\<close> on a \<open>dict\<close> without the key \<open>k\<close>\<close>
  | JSONDecodeError           \<comment> \<open>\<open>response.json()\<close> inside a handler, on a body that is not JSON\<close>
  | UncaughtException         \<comment> \<open>an exception of the transport that no handler of the code catches\<close>
  | RequestError jvalue       \<comment> \<open>\<open>RequestException\<close> raised by \<open>is_present\<close>, with its argument\<close>
  | NameError string          \<comment> \<open>raised by the last-request accessors\<close>

subsection \<open>Decimal digits, \<open>int(s)\<close> and \<open>str(n)\<close>\<close>

definition is_digit :: "char \<Rightarrow> bool" where
  "is_digit c = (c \<in> set ''0123456789'')"

definition digit_val :: "char \<Rightarrow> nat" where
  "digit_val c =
     (case map_of (zip ''0123456789'' [0, 1, 2, 3, 4, 5, 6, 7, 8, 9]) c of
        None \<Rightarrow> 0
      | Some d \<Rightarrow> d)"

definition digit_char :: "nat \<Rightarrow> char" where
  "digit_char d = ''0123456789'' ! d"

definition digits_value :: "string \<Rightarrow> nat" where
  "digits_value ds = foldl (\<lambda>acc c. 10 * acc + digit_val c) 0 ds"

text \<open>
  The ASCII characters Python treats as white space: tab, line feed, vertical tab, form
  feed, carriage return, the four separators \<open>0x1c\<close> to \<open>0x1f\<close>, and space.
\<close>

definition is_space :: "char \<Rightarrow> bool" where
  "is_space c =
     (c \<in> set [CHR 0x09, CHR 0x0A, CHR 0x0B, CHR 0x0C, CHR 0x0D,
                 CHR 0x1C, CHR 0x1D, CHR 0x1E, CHR 0x1F, CHR '' ''])"

definition strip :: "string \<Rightarrow> string" where
  "strip s = rev (dropWhile is_space (rev (dropWhile is_space s)))"

text \<open>
  The body of an integer literal: decimal digits, where a single underscore may stand
  between two digits.
\<close>

fun literal_body :: "string \<Rightarrow> bool" where
  "literal_body [] = False"
| "literal_body [c] = is_digit c"
| "literal_body (c # d # cs) =
     (is_digit c \<and> (if d = CHR ''_'' then literal_body cs else literal_body (d # cs)))"

text \<open>
  \<open>int(s)\<close>: white space around the literal is dropped, one sign is allowed, leading
  zeros are allowed. (CPython also accepts non-ASCII digits and refuses literals of more
  than 4300 digits; neither occurs with composite dates.)
\<close>

definition py_int :: "string \<Rightarrow> error + int" where
  "py_int s =
     (let t = strip s;
          neg = (t \<noteq> [] \<and> hd t = CHR ''-'');
          b = (if t \<noteq> [] \<and> (hd t = CHR ''-'' \<or> hd t = CHR ''+'') then tl t else t)
      in if literal_body b
         then Inr ((if neg then - 1 else 1) * int (digits_value (filter is_digit b)))
         else Inl (ValueError (InvalidLiteral s)))"

fun str_nat :: "nat \<Rightarrow> string" where
  "str_nat n = (if n < 10 then [digit_char n] else str_nat (n div 10) @ [digit_char (n mod 10)])"

declare str_nat.simps [simp del]

definition py_str :: "int \<Rightarrow> string" where
  "py_str i = (if i < 0 then CHR ''-'' # str_nat (nat (- i)) else str_nat (nat i))"

subsection \<open>\<open>str.replace\<close>, \<open>min\<close>, \<open>list.index\<close>, slices\<close>

text \<open>\<open>s.replace('A', '')\<close> deletes every occurrence of the character, not only a prefix.\<close>

definition replace_A :: "string \<Rightarrow> string" where
  "replace_A s = filter (\<lambda>c. c \<noteq> CHR ''A'') s"

text \<open>
  \<open>min(items, key=f)\<close> keeps the first element whose key is minimal: a later element
  replaces the current best only when its key is strictly smaller.
\<close>

definition py_min_key :: "('a \<Rightarrow> int) \<Rightarrow> 'a list \<Rightarrow> error + 'a" where
  "py_min_key f xs =
     (case xs of
        [] \<Rightarrow> Inl (ValueError EmptySequence)
      | x # ys \<Rightarrow> Inr (foldl (\<lambda>best y. if f y < f best then y else best) x ys))"

fun py_index :: "string list \<Rightarrow> string \<Rightarrow> error + nat" where
  "py_index [] x = Inl (ValueError (NotInList x))"
| "py_index (y # ys) x =
     (if y = x then Inr 0
      else case py_index ys x of Inl e \<Rightarrow> Inl e | Inr i \<Rightarrow> Inr (Suc i))"

text \<open>\<open>xs[i:j]\<close> for indices \<open>0 \<le> i\<close> and \<open>0 \<le> j\<close>: empty when \<open>j \<le> i\<close>.\<close>

definition py_slice :: "'a list \<Rightarrow> nat \<Rightarrow> nat \<Rightarrow> 'a list" where
  "py_slice xs i j = take (j - i) (drop i xs)"

fun map_err :: "('a \<Rightarrow> error + 'b) \<Rightarrow> 'a list \<Rightarrow> error + 'b list" where
  "map_err f [] = Inr []"
| "map_err f (x # xs) =
     (case f x of
        Inl e \<Rightarrow> Inl e
      | Inr y \<Rightarrow> (case map_err f xs of Inl e \<Rightarrow> Inl e | Inr ys \<Rightarrow> Inr (y # ys)))"

section \<open>The date interval resolver (\<open>utils/utils.py\<close>)\<close>

text \<open>
  \<open>_find_closest_composite_date\<close>: the pivot and the items are converted to integers, the
  item closest to the pivot is chosen, and the result is rendered again as \<open>A\<close> followed
  by the decimal digits of that integer.
\<close>

definition find_closest_composite_date :: "string list \<Rightarrow> string \<Rightarrow> error + string" where
  "find_closest_composite_date items pivot =
     (case py_int (replace_A pivot) of
        Inl e \<Rightarrow> Inl e
      | Inr p \<Rightarrow>
          (case map_err (\<lambda>d. py_int (replace_A d)) items of
             Inl e \<Rightarrow> Inl e
           | Inr its \<Rightarrow>
               (case py_min_key (\<lambda>x. \<bar>x - p\<bar>) its of
                  Inl e \<Rightarrow> Inl e
                | Inr closest \<Rightarrow> Inr (CHR ''A'' # py_str closest))))"

text \<open>
  \<open>compute_date_interval\<close> is a generator whose body runs up to the slice before the
  first element is produced, and then only enumerates the slice. It is modelled by the
  outcome of consuming it: the exception raised, or the list of the dates it yields.
  The message of the range error names \<open>start_date\<close> twice, as the source does.
\<close>

definition range_message :: "string \<Rightarrow> string" where
  "range_message start_date =
     ''End date '' @ start_date @ '' is not greater than start date '' @ start_date @ ''.''"

definition compute_date_interval :: "string list \<Rightarrow> string \<Rightarrow> string \<Rightarrow> error + string list" where
  "compute_date_interval all_dates start_date end_date =
     (case py_int (replace_A start_date) of
        Inl e \<Rightarrow> Inl e
      | Inr s \<Rightarrow>
     (case py_int (replace_A end_date) of
        Inl e \<Rightarrow> Inl e
      | Inr e \<Rightarrow>
     if s - e > 0 then Inl (ValueError (InvalidRange (range_message start_date)))
     else
     (case find_closest_composite_date all_dates start_date of
        Inl err \<Rightarrow> Inl err
      | Inr start_closest_date \<Rightarrow>
     (case find_closest_composite_date all_dates end_date of
        Inl err \<Rightarrow> Inl err
      | Inr end_closest_date \<Rightarrow>
     (case py_index all_dates start_closest_date of
        Inl err \<Rightarrow> Inl err
      | Inr index_start_closest_date \<Rightarrow>
     (case py_index all_dates end_closest_date of
        Inl err \<Rightarrow> Inl err
      | Inr index_end_closest_date \<Rightarrow>
          Inr (py_slice all_dates index_start_closest_date (index_end_closest_date + 1))))))))"

section \<open>Dynamically typed operations on decoded JSON\<close>

fun starts_with :: "string \<Rightarrow> string \<Rightarrow> bool" where
  "starts_with [] s = True"
| "starts_with (c # cs) [] = False"
| "starts_with (c # cs) (d # ds) = (c = d \<and> starts_with cs ds)"

fun substring :: "string \<Rightarrow> string \<Rightarrow> bool" where
  "substring k [] = (k = [])"
| "substring k (c # cs) = (starts_with k (c # cs) \<or> substring k cs)"

text \<open>
  \<open>k in x\<close> for a string \<open>k\<close>: a key of a \<open>dict\<close>, an element of a \<open>list\<close>, a substring of a
  \<open>str\<close>; any other JSON value is not a container.
\<close>

definition py_in :: "string \<Rightarrow> jvalue \<Rightarrow> error + bool" where
  "py_in k x =
     (case x of
        JObj kv \<Rightarrow> Inr (k \<in> set (map fst kv))
      | JArr xs \<Rightarrow> Inr (JStr k \<in> set xs)
      | JStr s \<Rightarrow> Inr (substring k s)
      | _ \<Rightarrow> Inl TypeError)"

text \<open>\<open>x.get(k)\<close>: only a \<open>dict\<close> has the method; a missing key gives \<open>None\<close>.\<close>

definition py_get :: "jvalue \<Rightarrow> string \<Rightarrow> error + jvalue" where
  "py_get x k =
     (case x of
        JObj kv \<Rightarrow> Inr (case map_of kv k of None \<Rightarrow> JNull | Some v \<Rightarrow> v)
      | _ \<Rightarrow> Inl AttributeError)"

text \<open>Iteration: the elements of a list, the keys of a \<open>dict\<close>, the characters of a string.\<close>

definition py_iter :: "jvalue \<Rightarrow> error + jvalue list" where
  "py_iter x =
     (case x of
        JArr xs \<Rightarrow> Inr xs
      | JObj kv \<Rightarrow> Inr (map (\<lambda>(k, v). JStr k) kv)
      | JStr s \<Rightarrow> Inr (map (\<lambda>c. JStr [c]) s)
      | _ \<Rightarrow> Inl TypeError)"

text \<open>
  \<open>d.update(e)\<close> and \<open>{**d, **e}\<close>: the members of \<open>e\<close> are stored into \<open>d\<close> one by one; a
  key already present keeps its position and takes the new value.
\<close>

definition dict_update :: "(string \<times> jvalue) list \<Rightarrow> (string \<times> jvalue) list \<Rightarrow> (string \<times> jvalue) list" where
  "dict_update d e = foldl (\<lambda>acc (k, v). AList.update k v acc) d e"

definition rstrip_newline :: "string \<Rightarrow> string" where
  "rstrip_newline s = rev (dropWhile (\<lambda>c. c = CHR 0x0A) (rev s))"

definition replace_quote :: "string \<Rightarrow> string" where
  "replace_quote s = filter (\<lambda>c. c \<noteq> CHR 0x22) s"

definition upper_char :: "char \<Rightarrow> char" where
  "upper_char c =
     (case map_of (zip ''abcdefghijklmnopqrstuvwxyz'' ''ABCDEFGHIJKLMNOPQRSTUVWXYZ'') c of
        None \<Rightarrow> c
      | Some u \<Rightarrow> u)"

definition upper :: "string \<Rightarrow> string" where
  "upper s = map upper_char s"

subsection \<open>Comparison, ordering and rendering of decoded JSON\<close>

text \<open>
  The numbers of Python: an \<open>int\<close>, a \<open>bool\<close> (which is an \<open>int\<close>) and a \<open>float\<close> compare by
  value; a number is kept as a pair \<open>(m, e)\<close> that stands for \<open>m * 2 ^ e\<close>.
\<close>

definition num_of :: "jvalue \<Rightarrow> (int \<times> int) option" where
  "num_of x =
     (case x of
        JInt i \<Rightarrow> Some (i, 0)
      | JBool b \<Rightarrow> Some (if b then 1 else 0, 0)
      | JFloat m e r \<Rightarrow> Some (m, e)
      | _ \<Rightarrow> None)"

definition num_less :: "int \<times> int \<Rightarrow> int \<times> int \<Rightarrow> bool" where
  "num_less a b =
     (let k = min (snd a) (snd b)
      in fst a * 2 ^ nat (snd a - k) < fst b * 2 ^ nat (snd b - k))"

definition num_eq :: "int \<times> int \<Rightarrow> int \<times> int \<Rightarrow> bool" where
  "num_eq a b =
     (let k = min (snd a) (snd b)
      in fst a * 2 ^ nat (snd a - k) = fst b * 2 ^ nat (snd b - k))"

text \<open>
  \<open>x == y\<close>: numbers by value, strings and lists element by element, a \<open>dict\<close> by its
  members whatever their order (the keys of a decoded object are distinct), \<open>None\<close> only
  with \<open>None\<close>; values of different kinds are unequal.
\<close>

fun py_eq :: "jvalue \<Rightarrow> jvalue \<Rightarrow> bool"
  and py_eq_list :: "jvalue list \<Rightarrow> jvalue list \<Rightarrow> bool"
  and py_eq_members :: "(string \<times> jvalue) list \<Rightarrow> (string \<times> jvalue) list \<Rightarrow> bool"
  and py_eq_member :: "string \<Rightarrow> jvalue \<Rightarrow> (string \<times> jvalue) list \<Rightarrow> bool" where
  "py_eq JNull y = (y = JNull)"
| "py_eq (JStr s) y = (y = JStr s)"
| "py_eq (JArr xs) y = (case y of JArr ys \<Rightarrow> py_eq_list xs ys | _ \<Rightarrow> False)"
| "py_eq (JObj a) y =
     (case y of
        JObj b \<Rightarrow> length a = length b \<and> py_eq_members a b
      | _ \<Rightarrow> False)"
| "py_eq (JBool b) y =
     (case num_of y of None \<Rightarrow> False | Some n \<Rightarrow> num_eq (if b then 1 else 0, 0) n)"
| "py_eq (JInt i) y = (case num_of y of None \<Rightarrow> False | Some n \<Rightarrow> num_eq (i, 0) n)"
| "py_eq (JFloat m e r) y = (case num_of y of None \<Rightarrow> False | Some n \<Rightarrow> num_eq (m, e) n)"
| "py_eq_list [] ys = (ys = [])"
| "py_eq_list (x # xs) ys = (case ys of [] \<Rightarrow> False | y # ys' \<Rightarrow> py_eq x y \<and> py_eq_list xs ys')"
| "py_eq_members [] b = True"
| "py_eq_members ((k, v) # a) b = (py_eq_member k v b \<and> py_eq_members a b)"
| "py_eq_member k v [] = False"
| "py_eq_member k v ((k', v') # b) = (if k = k' then py_eq v v' else py_eq_member k v b)"

text \<open>
  \<open>x < y\<close>: defined between two numbers, two strings and two lists (the first pair of
  unequal elements decides, else the shorter list is the smaller); every other pair
  raises \<open>TypeError\<close>.
\<close>

fun py_lt :: "jvalue \<Rightarrow> jvalue \<Rightarrow> error + bool"
  and py_lt_list :: "jvalue list \<Rightarrow> jvalue list \<Rightarrow> error + bool" where
  "py_lt JNull y = Inl TypeError"
| "py_lt (JObj a) y = Inl TypeError"
| "py_lt (JStr s) y = (case y of JStr t \<Rightarrow> Inr (s < t) | _ \<Rightarrow> Inl TypeError)"
| "py_lt (JArr xs) y = (case y of JArr ys \<Rightarrow> py_lt_list xs ys | _ \<Rightarrow> Inl TypeError)"
| "py_lt (JBool b) y =
     (case num_of y of None \<Rightarrow> Inl TypeError | Some n \<Rightarrow> Inr (num_less (if b then 1 else 0, 0) n))"
| "py_lt (JInt i) y = (case num_of y of None \<Rightarrow> Inl TypeError | Some n \<Rightarrow> Inr (num_less (i, 0) n))"
| "py_lt (JFloat m e r) y =
     (case num_of y of None \<Rightarrow> Inl TypeError | Some n \<Rightarrow> Inr (num_less (m, e) n))"
| "py_lt_list [] ys = Inr (ys \<noteq> [])"
| "py_lt_list (x # xs) ys =
     (case ys of
        [] \<Rightarrow> Inr False
      | y # ys' \<Rightarrow> if py_eq x y then py_lt_list xs ys' else py_lt x y)"












section \<open>The HTTP transport as seen by the client\<close>

text \<open>
  What the client reads of a \<open>requests\<close> response. \<open>ok\<close> is the library's verdict on the
  status code: it is false exactly when \<open>raise_for_status()\<close> raises. \<open>json\<close> is the result
  of \<open>response.json()\<close>, \<open>None\<close> when the body does not decode; \<open>body_text\<close> is
  \<open>response.text\<close>; \<open>headers_Date\<close> is
  \<open>response.headers.get('Date')\<close>.
\<close>

record http_response =
  ok :: bool
  status_code :: int
  reason :: string
  url :: string
  headers_Date :: "string option"
  body_text :: string
  json :: "jvalue option"

text \<open>
  An exception of the \<open>requests\<close> hierarchy, classified by the first \<open>except\<close> clause of
  \<open>_response\<close> that catches it. Its \<open>response\<close> and \<open>request\<close> attributes may be \<open>None\<close>;
  of the request only the URL is read.
\<close>

datatype exception_class = HTTPError | ConnectionError | Timeout | RequestException

record request_exception =
  caught_as :: exception_class
  exc_response :: "http_response option"
  exc_request_url :: "string option"

text \<open>
  One attempt either returns a response or raises. The upstream service is a fixed
  function from the requested URL to the outcome of the attempt.
\<close>

datatype attempt = Returns http_response | Raises request_exception

type_synonym world = "string \<Rightarrow> attempt"

section \<open>The provider (\<open>dataprovider/provider.py\<close>)\<close>

text \<open>
  The fields of \<open>NasaWebServiceAPIProvider\<close> that its methods read or write. \<open>base_url\<close> is
  \<open>self._url\<close>, the value the property \<open>base_url\<close> returns. \<open>sent\<close> is not a field of the
  class: it records, in order, the URLs handed to \<open>self._session.get\<close>.
\<close>

record provider =
  base_url :: string
  MAXIMUM_CONCURRENT_NUMBER :: int
  requests_time :: "string option"
  requests_url :: string
  sent :: "string list"

definition init :: "string \<Rightarrow> int \<Rightarrow> provider" where
  "init base version =
     \<lparr> base_url = base @ ''/'' @ ''rst/api/v'' @ py_str version,
       MAXIMUM_CONCURRENT_NUMBER = 10,
       requests_time = Some '''',
       requests_url = '''',
       sent = [] \<rparr>"

subsection \<open>The concurrency limit\<close>

definition maximum_concurrent_number :: "provider \<Rightarrow> int" where
  "maximum_concurrent_number p = MAXIMUM_CONCURRENT_NUMBER p"

definition set_maximum_concurrent_number :: "int \<Rightarrow> provider \<Rightarrow> (error + unit) \<times> provider" where
  "set_maximum_concurrent_number concurrent_number p =
     (if concurrent_number > 10
      then (Inl (ValueError (ConcurrentLimit concurrent_number)), p)
      else (Inr (), p\<lparr>MAXIMUM_CONCURRENT_NUMBER := concurrent_number\<rparr>))"

text \<open>
  \<open>range(start, stop, step)\<close> and the chunk-splitting expression of the concurrent
  orchestrators,
  \<open>(dates[i:i + self._MAXIMUM_CONCURRENT_NUMBER] for i in range(0, len(dates), self._MAXIMUM_CONCURRENT_NUMBER))\<close>.
\<close>

definition py_range :: "int \<Rightarrow> int \<Rightarrow> int \<Rightarrow> error + int list" where
  "py_range start stop step =
     (if step = 0 then Inl (ValueError ZeroStep)
      else if step > 0
      then Inr (map (\<lambda>k. start + int k * step) [0 ..< nat ((stop - start + step - 1) div step)])
      else Inr (map (\<lambda>k. start + int k * step) [0 ..< nat ((start - stop - step - 1) div (- step))]))"

definition chunks :: "int \<Rightarrow> 'a list \<Rightarrow> error + 'a list list" where
  "chunks m dates =
     (case py_range 0 (int (length dates)) m of
        Inl e \<Rightarrow> Inl e
      | Inr idx \<Rightarrow> Inr (map (\<lambda>i. py_slice dates (nat i) (nat (i + m))) idx))"

subsection \<open>Normalising the outcome of one request\<close>

definition response_fault_handling :: "http_response \<Rightarrow> error + jvalue" where
  "response_fault_handling response =
     (let error_response =
            [(''status'', JInt (status_code response)),
             (''title'', JStr (reason response)),
             (''url'', JStr (url response))]
      in case json response of
           None \<Rightarrow> Inl JSONDecodeError
         | Some (JObj kv) \<Rightarrow>
             Inr (JObj (dict_update error_response
                   [(''detail'', case map_of kv ''detail'' of None \<Rightarrow> JNull | Some v \<Rightarrow> v)]))
         | Some (JStr s) \<Rightarrow>
             Inr (JObj (dict_update error_response
                   [(''detail'', JStr (replace_quote (rstrip_newline (body_text response))))]))
         | Some _ \<Rightarrow>
             Inr (JObj (dict_update error_response [(''detail'', JStr ''something wrong'')])))"

definition error_fault_handling :: "request_exception \<Rightarrow> int \<Rightarrow> string \<Rightarrow> error + jvalue" where
  "error_fault_handling error_obj status title =
     (case exc_request_url error_obj of
        None \<Rightarrow> Inl AttributeError
      | Some request_url \<Rightarrow>
          Inr (JObj [(''status'', JInt status),
                     (''title'', JStr title),
                     (''url'', JStr request_url),
                     (''detail'', JStr (''Exception for '' @ request_url))]))"

text \<open>
  \<open>_response\<close>. The last-request fields are blanked first and filled again as soon as a
  response has been obtained. A response that is \<open>ok\<close> is decoded and passed through; one
  that is not makes \<open>raise_for_status()\<close> raise an \<open>HTTPError\<close> that carries the response,
  which the first handler normalises. A body that does not decode makes an exception
  leave \<open>_response\<close> on either path: on a response that is not \<open>ok\<close>, \<open>response.json()\<close>
  raises inside \<open>_response_fault_handling\<close>, that is, inside the handler; on a response
  that is \<open>ok\<close> it raises inside the \<open>try\<close> block, the exception (a \<open>RequestException\<close> in
  \<open>requests\<close> from version 2.27 on, constructed with neither response nor request) is
  caught by the last handler, and \<open>_error_fault_handling\<close> raises \<open>AttributeError\<close> when it
  reads \<open>error_obj.request.url\<close>.
\<close>

definition undecodable :: request_exception where
  "undecodable = \<lparr> caught_as = RequestException, exc_response = None, exc_request_url = None \<rparr>"

definition response :: "world \<Rightarrow> string \<Rightarrow> provider \<Rightarrow> (error + jvalue) \<times> provider" where
  "response w query p =
     (let p0 = p\<lparr>requests_time := Some '''', requests_url := '''', sent := sent p @ [query]\<rparr>
      in case w query of
           Returns r \<Rightarrow>
             (let p1 = p0\<lparr>requests_time := headers_Date r, requests_url := url r\<rparr>
              in if ok r
                 then (case json r of
                         None \<Rightarrow> (error_fault_handling undecodable 777 ''AMBIGUOUS ERROR'', p1)
                       | Some v \<Rightarrow> (Inr v, p1))
                 else (response_fault_handling r, p1))
         | Raises errh \<Rightarrow>
             (case caught_as errh of
                HTTPError \<Rightarrow>
                  (case exc_response errh of
                     None \<Rightarrow> (error_fault_handling errh 400 ''HTTP ERROR'', p0)
                   | Some r \<Rightarrow> (response_fault_handling r, p0))
              | ConnectionError \<Rightarrow> (error_fault_handling errh 777 ''CONNECTION ERROR'', p0)
              | Timeout \<Rightarrow> (error_fault_handling errh 777 ''TIMEOUT ERROR'', p0)
              | RequestException \<Rightarrow> (error_fault_handling errh 777 ''AMBIGUOUS ERROR'', p0)))"

text \<open>
  The accessors of the last-request fields. They raise while the field is blank, that
  is, before any response has been obtained and after an attempt that raised.
\<close>

definition get_request_http_time :: "provider \<Rightarrow> error + string option" where
  "get_request_http_time p =
     (if requests_time p = Some ''''
      then Inl (NameError ''The HTML header time is not found. Try to make a valid request first.'')
      else Inr (requests_time p))"

definition get_request_url :: "provider \<Rightarrow> error + string" where
  "get_request_url p =
     (if requests_url p = ''''
      then Inl (NameError ''The URL is not found. Try to make a valid request first.'')
      else Inr (requests_url p))"

subsection \<open>Single requests\<close>

text \<open>
  Catalog tokens (sensor, tool, product, band) enter a URL through \<open>str()\<close>, which gives
  the value of the enumeration member; they are passed here as that string. Latitude and
  longitude are floating-point numbers that only enter a URL or a message through their
  decimal rendering, and are passed as that rendering.
\<close>

definition products :: "world \<Rightarrow> string \<Rightarrow> string \<Rightarrow> provider \<Rightarrow> (error + jvalue) \<times> provider" where
  "products w sensor tool p =
     response w (base_url p @ ''/products?sensor='' @ sensor @ ''&tool='' @ tool) p"

definition bands :: "world \<Rightarrow> string \<Rightarrow> provider \<Rightarrow> (error + jvalue) \<times> provider" where
  "bands w product p = response w (base_url p @ ''/'' @ product @ ''/bands'') p"

definition dates :: "world \<Rightarrow> string \<Rightarrow> string \<Rightarrow> string \<Rightarrow> provider \<Rightarrow> (error + jvalue) \<times> provider" where
  "dates w product latitude longitude p =
     response w (base_url p @ ''/'' @ product @ ''/dates?latitude='' @ latitude
                 @ ''&longitude='' @ longitude) p"


subsection \<open>The date resolver on the dates of a response\<close>





subsection \<open>The sequential batch orchestrators\<close>








subsection \<open>The concurrent batch orchestrators\<close>

text \<open>
  The concurrent orchestrators fetch the dates with \<open>self.dates\<close>, that is, through
  \<open>requests\<close>, and the subsets through an \<open>aiohttp\<close> session. Of an \<open>aiohttp\<close> response the code
  reads \<open>ok\<close>, \<open>status\<close>, \<open>reason\<close>, \<open>url\<close> and \<open>json()\<close>, which returns the decoded body or raises.
  An exception is given by the handler of \<open>_asynchronous_response\<close> that catches it, if any
  does, and by its \<open>str()\<close>.
\<close>

datatype aio_class = ClientConnectorError | ClientResponseError | ClientPayloadError | InvalidURL
  | Unhandled

record aio_exception =
  aio_caught_as :: aio_class
  aio_str :: string

record aio_response =
  aio_ok :: bool
  aio_status :: int
  aio_reason :: "string option"
  aio_url :: string
  aio_json :: "aio_exception + jvalue"

datatype aio_attempt = Answers aio_response | Fails aio_exception

type_synonym aio_world = "string \<Rightarrow> aio_attempt"








subsection \<open>Presence of a date and the availability report\<close>


text \<open>The enumeration \<open>Products\<close>: the name of each member and its value.\<close>

definition Products :: "(string \<times> string) list" where
  "Products =
     [(''MOD09A1'', ''MOD09A1''), (''MOD11A2'', ''MOD11A2''), (''MOD13Q1'', ''MOD13Q1''),
      (''MOD14A2'', ''MOD14A2''), (''MOD15A2H'', ''MOD15A2H''), (''MOD16A2'', ''MOD16A2''),
      (''MOD17A2H'', ''MOD17A2H''), (''MOD17A3HGF'', ''MOD17A3HGF''),
      (''MOD21A2'', ''MOD21A2''), (''MOD44B'', ''MOD44B''), (''MYD09A1'', ''MYD09A1''),
      (''MYD11A2'', ''MYD11A2''), (''MYD13Q1'', ''MYD13Q1''), (''MYD14A2'', ''MYD14A2''),
      (''MYD15A2H'', ''MYD15A2H''), (''MYD16A2'', ''MYD16A2''), (''MYD17A2H'', ''MYD17A2H''),
      (''MYD17A3HGF'', ''MYD17A3HGF''), (''MYD21A2'', ''MYD21A2''),
      (''MCD12Q1'', ''MCD12Q1''), (''MCD12Q2'', ''MCD12Q2''), (''MCD15A2H'', ''MCD15A2H''),
      (''MCD15A3H'', ''MCD15A3H''), (''MCD19A3'', ''MCD19A3''), (''MCD43A'', ''MCD43A''),
      (''MCD43A1'', ''MCD43A1''), (''MCD43A4'', ''MCD43A4''), (''MCD64A1'', ''MCD64A1''),
      (''VNP09A1'', ''VNP09A1''), (''VNP09H1'', ''VNP09H1''), (''VNP13A1'', ''VNP13A1''),
      (''VNP15A2H'', ''VNP15A2H''), (''VNP21A2'', ''VNP21A2''), (''VNP22Q2'', ''VNP22Q2''),
      (''DAYMET'', ''Daymet''), (''SPL3SMP_E'', ''SPL3SMP_E''), (''SPL4CMDL'', ''SPL4CMDL''),
      (''ECO4ESIPTJPL'', ''ECO4ESIPTJPL''), (''ECO4WUE'', ''ECO4WUE''),
      (''SIF005'', ''SIF005''), (''SIF_ANN'', ''SIF_ANN''), (''GEDI03'', ''GEDI03''),
      (''GEDI04_B'', ''GEDI04_B'')]"

text \<open>\<open>all_products = set([str(product) for product in Products])\<close>: the values.\<close>

definition all_products :: "string set" where
  "all_products = set (map snd Products)"

definition product_report :: "string \<Rightarrow> jvalue list \<Rightarrow> jvalue list \<Rightarrow> jvalue" where
  "product_report reference_date available not_available =
     JObj [(''date'', JStr reference_date),
           (''available'', JArr available),
           (''not_available'', JArr not_available)]"

definition add_dict :: "provider \<Rightarrow> string \<Rightarrow> string \<Rightarrow> string \<Rightarrow> string \<Rightarrow> (string \<times> jvalue) list" where
  "add_dict p reference_date product_code latitude longitude =
     [(''status'', JInt 777),
      (''title'', JStr ''NO DATA AVAILABLE''),
      (''url'', JStr (requests_url p)),
      (''detail'', JStr (''No data available for day '' @ reference_date @ '' for ''
                         @ product_code @ '' '' @ latitude @ '' '' @ longitude
                         @ '' combination.''))]"

text \<open>
  The loop \<open>for product in products_lst\<close> of \<open>available_products_by_date\<close>. The statement
  \<open>return product_report\<close> stands inside the loop body, after the \<open>if\<close>: the first
  iteration returns, whatever the product was. When the list is empty the body never
  runs and the function ends without a \<open>return\<close>, so that its value is \<open>None\<close>.
  \<open>getattr(Products, \<dots>)\<close> looks the member up by its name.
\<close>

fun for_product_in ::
  "world \<Rightarrow> string \<Rightarrow> string \<Rightarrow> string \<Rightarrow> jvalue list \<Rightarrow> provider \<Rightarrow> (error + jvalue) \<times> provider" where
  "for_product_in w latitude longitude reference_date [] p = (Inr JNull, p)"
| "for_product_in w latitude longitude reference_date (product # later) p =
     (case py_get product ''product'' of
        Inl e \<Rightarrow> (Inl e, p)
      | Inr (JStr code) \<Rightarrow>
          (let product_code = upper code
           in if product_code \<in> all_products
              then
                (case map_of Products product_code of
                   None \<Rightarrow> (Inl AttributeError, p)
                 | Some member \<Rightarrow>
                (case dates w member latitude longitude p of
                   (Inl e, p') \<Rightarrow> (Inl e, p')
                 | (Inr product_date, p') \<Rightarrow>
                (case py_in ''status'' product_date of
                   Inl e \<Rightarrow> (Inl e, p')
                 | Inr False \<Rightarrow>
                     (case py_get product_date ''dates'' of
                        Inl e \<Rightarrow> (Inl e, p')
                      | Inr slot \<Rightarrow>
                     (case py_iter slot of
                        Inl e \<Rightarrow> (Inl e, p')
                      | Inr ds \<Rightarrow>
                     (case map_err (\<lambda>d. py_get d ''modis_date'') ds of
                        Inl e \<Rightarrow> (Inl e, p')
                      | Inr product_dates \<Rightarrow>
                          if JStr reference_date \<in> set product_dates
                          then (Inr (product_report reference_date [product] []), p')
                          else
                            (case product of
                               JObj kv \<Rightarrow>
                                 (Inr (product_report reference_date []
                                        [JObj (dict_update kv
                                           (add_dict p' reference_date product_code
                                              latitude longitude))]), p')
                             | _ \<Rightarrow> (Inl AttributeError, p')))))
                 | Inr True \<Rightarrow>
                     (case (product, product_date) of
                        (JObj kv, JObj kv') \<Rightarrow>
                          (Inr (product_report reference_date [] [JObj (dict_update kv kv')]), p')
                      | _ \<Rightarrow> (Inl TypeError, p')))))
              else (Inr (product_report reference_date [] []), p))
      | Inr _ \<Rightarrow> (Inl AttributeError, p))"

definition available_products_by_date ::
  "world \<Rightarrow> string \<Rightarrow> string \<Rightarrow> string \<Rightarrow> provider \<Rightarrow> (error + jvalue) \<times> provider" where
  "available_products_by_date w latitude longitude reference_date p =
     (case products w '''' '''' p of
        (Inl e, p') \<Rightarrow> (Inl e, p')
      | (Inr products_result, p') \<Rightarrow>
     (case py_in ''status'' products_result of
        Inl e \<Rightarrow> (Inl e, p')
      | Inr True \<Rightarrow> (Inr products_result, p')
      | Inr False \<Rightarrow>
     (case py_get products_result ''products'' of
        Inl e \<Rightarrow> (Inl e, p')
      | Inr slot \<Rightarrow>
     (case py_iter slot of
        Inl e \<Rightarrow> (Inl e, p')
      | Inr products_lst \<Rightarrow>
          for_product_in w latitude longitude reference_date products_lst p'))))"

section \<open>Vocabulary of the specification\<close>

text \<open>
  These notions are not code. They are the words in which the properties below are
  stated: a composite date is \<open>A\<close> followed by seven decimal digits, and its numeric value
  is the number those digits denote. A catalog date is a composite date whose first digit
  is not \<open>0\<close>, that is, whose year has four significant digits.
\<close>

definition composite_date :: "string \<Rightarrow> bool" where
  "composite_date s =
     (case s of [] \<Rightarrow> False | c # ds \<Rightarrow> c = CHR ''A'' \<and> length ds = 7 \<and> list_all is_digit ds)"

definition numeric :: "string \<Rightarrow> int" where
  "numeric s = int (digits_value (tl s))"

definition catalog_date :: "string \<Rightarrow> bool" where
  "catalog_date s = (composite_date s \<and> s ! 1 \<noteq> CHR ''0'')"





text \<open>
  A result contains \<open>status\<close> when the test \<open>'status' in result\<close>, which the code makes
  on every result it inspects, is true. An error record is a mapping with the four
  members \<open>status\<close>, \<open>title\<close>, \<open>url\<close> and \<open>detail\<close>. A service is plain when no body of a
  successful response contains \<open>status\<close>.
\<close>

definition has_status :: "jvalue \<Rightarrow> bool" where
  "has_status v = (py_in ''status'' v = Inr True)"







definition products_query :: "string \<Rightarrow> string \<Rightarrow> string \<Rightarrow> string" where
  "products_query base sensor tool = base @ ''/products?sensor='' @ sensor @ ''&tool='' @ tool"

definition dates_query :: "string \<Rightarrow> string \<Rightarrow> string \<Rightarrow> string \<Rightarrow> string" where
  "dates_query base product latitude longitude =
     base @ ''/'' @ product @ ''/dates?latitude='' @ latitude @ ''&longitude='' @ longitude"



section \<open>Example services\<close>

text \<open>
  Concrete upstream services and a concrete provider, on which the properties below are
  exercised: a service on which every request raises an exception of a given class, with
  or without the request attached, and services that answer every request with the same
  response.
\<close>

definition example_provider :: provider where
  "example_provider = init ''https://modis.ornl.gov'' 1"

definition bands_url :: string where
  "bands_url = ''https://modis.ornl.gov/rst/api/v1/MOD13Q1/bands''"

definition dates_url :: string where
  "dates_url =
     ''https://modis.ornl.gov/rst/api/v1/MOD13Q1/dates?latitude=41.84936&longitude=13.58814''"

definition products_url :: string where
  "products_url = ''https://modis.ornl.gov/rst/api/v1/products?sensor=&tool=''"

definition raising :: "exception_class \<Rightarrow> world" where
  "raising c query =
     Raises \<lparr> caught_as = c, exc_response = None, exc_request_url = Some query \<rparr>"

definition raising_without_request :: "exception_class \<Rightarrow> world" where
  "raising_without_request c query =
     Raises \<lparr> caught_as = c, exc_response = None, exc_request_url = None \<rparr>"

definition answering :: "bool \<Rightarrow> int \<Rightarrow> string \<Rightarrow> string \<Rightarrow> jvalue \<Rightarrow> world" where
  "answering good code phrase raw body query =
     Returns \<lparr> ok = good, status_code = code, reason = phrase, url = query,
               headers_Date = Some ''Mon, 21 Mar 2022 10:06:49 GMT'',
               body_text = raw, json = Some body \<rparr>"

definition bad_band :: world where
  \<open>bad_band = answering False 500 ''INTERNAL SERVER ERROR'' ''{"detail": "bad band"}''
                 (JObj [(''detail'', JStr ''bad band'')])\<close>

definition no_detail :: world where
  \<open>no_detail = answering False 500 ''INTERNAL SERVER ERROR'' ''{"message": "bad band"}''
                  (JObj [(''message'', JStr ''bad band'')])\<close>

definition quoted_text :: world where
  \<open>quoted_text = answering False 404 ''NOT FOUND'' (''"No data"'' @ [CHR 0x0A])
                    (JStr ''No data'')\<close>

definition status_in_body :: world where
  \<open>status_in_body = answering True 200 ''OK'' ''{"status": "ok", "products": []}''
                       (JObj [(''status'', JStr ''ok''), (''products'', JArr [])])\<close>

text \<open>
  A service that knows two products, three dates of the first one (listed out of order)
  and the subsets of two of them, and refuses every other connection; a variant whose
  product list starts with a product that the enumeration \<open>Products\<close> does not have; and
  a variant that answers every subset request with a page that is not JSON.
\<close>

definition subset_url :: "string \<Rightarrow> string" where
  "subset_url d =
     ''https://modis.ornl.gov/rst/api/v1/MOD13Q1/subset?latitude=41.84936&longitude=13.58814''
     @ ''&band=250m_16_days_NDVI&startDate='' @ d @ ''&endDate='' @ d
     @ ''&kmAboveBelow=1&kmLeftRight=1''"

definition products_body :: jvalue where
  "products_body =
     JObj [(''products'',
            JArr [JObj [(''product'', JStr ''MOD13Q1''), (''frequency'', JStr ''16-Day'')],
                  JObj [(''product'', JStr ''MOD11A2''), (''frequency'', JStr ''8-Day'')]])]"

definition unlisted_first_body :: jvalue where
  "unlisted_first_body =
     JObj [(''products'',
            JArr [JObj [(''product'', JStr ''MOD13A3''), (''frequency'', JStr ''Monthly'')],
                  JObj [(''product'', JStr ''MOD13Q1''), (''frequency'', JStr ''16-Day'')]])]"

definition dates_body :: jvalue where
  "dates_body =
     JObj [(''dates'',
            JArr [JObj [(''calendar_date'', JStr ''2020-12-02''), (''modis_date'', JStr ''A2020337'')],
                  JObj [(''calendar_date'', JStr ''2020-11-25''), (''modis_date'', JStr ''A2020330'')],
                  JObj [(''calendar_date'', JStr ''2020-12-10''), (''modis_date'', JStr ''A2020345'')]])]"

definition subset_body :: "string \<Rightarrow> jvalue" where
  "subset_body d = JObj [(''subset'', JArr [JObj [(''modis_date'', JStr d)]])]"

definition catalog_service :: world where
  \<open>catalog_service query =
     (if query = products_url then
        answering True 200 ''OK''
          ''{"products": [{"product": "MOD13Q1", "frequency": "16-Day"}, {"product": "MOD11A2", "frequency": "8-Day"}]}''
          products_body query
      else if query = dates_url then
        answering True 200 ''OK''
          ''{"dates": [{"calendar_date": "2020-12-02", "modis_date": "A2020337"}, {"calendar_date": "2020-11-25", "modis_date": "A2020330"}, {"calendar_date": "2020-12-10", "modis_date": "A2020345"}]}''
          dates_body query
      else if query = subset_url ''A2020330'' then
        answering True 200 ''OK'' ''{"subset": [{"modis_date": "A2020330"}]}''
          (subset_body ''A2020330'') query
      else if query = subset_url ''A2020337'' then
        answering True 200 ''OK'' ''{"subset": [{"modis_date": "A2020337"}]}''
          (subset_body ''A2020337'') query
      else raising ConnectionError query)\<close>

definition unlisted_first_service :: world where
  \<open>unlisted_first_service query =
     (if query = products_url then
        answering True 200 ''OK''
          ''{"products": [{"product": "MOD13A3", "frequency": "Monthly"}, {"product": "MOD13Q1", "frequency": "16-Day"}]}''
          unlisted_first_body query
      else catalog_service query)\<close>

definition html_page :: world where
  "html_page query =
     Returns \<lparr> ok = True, status_code = 200, reason = ''OK'', url = query,
               headers_Date = Some ''Mon, 21 Mar 2022 10:06:49 GMT'',
               body_text = ''<html></html>'', json = None \<rparr>"

definition html_subsets_service :: world where
  "html_subsets_service query =
     (if query = products_url \<or> query = dates_url then catalog_service query
      else html_page query)"


text \<open>A variant that has no date at all for the location.\<close>

definition no_dates_service :: world where
  \<open>no_dates_service query =
     (if query = dates_url then
        answering True 200 ''OK'' ''{"dates": []}'' (JObj [(''dates'', JArr [])]) query
      else catalog_service query)\<close>

text \<open>
  An \<open>aiohttp\<close> view of the catalog service: it has the subset of the first date, answers
  the request for the second with \<open>503\<close>, and refuses every other connection.
\<close>

definition catalog_aio :: aio_world where
  "catalog_aio request_url =
     (if request_url = subset_url ''A2020330'' then
        Answers \<lparr> aio_ok = True, aio_status = 200, aio_reason = Some ''OK'',
                  aio_url = request_url, aio_json = Inr (subset_body ''A2020330'') \<rparr>
      else if request_url = subset_url ''A2020337'' then
        Answers \<lparr> aio_ok = False, aio_status = 503, aio_reason = Some ''Service Unavailable'',
                  aio_url = request_url,
                  aio_json = Inl \<lparr> aio_caught_as = ClientResponseError,
                                   aio_str = ''503, message=Attempt to decode JSON with unexpected mimetype'' \<rparr> \<rparr>
      else Fails \<lparr> aio_caught_as = ClientConnectorError,
                   aio_str = ''Cannot connect to host modis.ornl.gov:443 ssl:default'' \<rparr>)"

text \<open>A variant that answers every request but that of the product list with a page that is not JSON.\<close>

definition html_dates_service :: world where
  "html_dates_service query =
     (if query = products_url then catalog_service query else html_page query)"
section \<open>Facts about the Python built-ins\<close>

lemma is_digit_cases:
  "is_digit c \<longleftrightarrow> c = CHR ''0'' \<or> c = CHR ''1'' \<or> c = CHR ''2'' \<or> c = CHR ''3'' \<or> c = CHR ''4''
     \<or> c = CHR ''5'' \<or> c = CHR ''6'' \<or> c = CHR ''7'' \<or> c = CHR ''8'' \<or> c = CHR ''9''"
  by (auto simp: is_digit_def)

lemma digit_not_special:
  "is_digit c \<Longrightarrow> c \<noteq> CHR ''A'' \<and> c \<noteq> CHR ''_'' \<and> c \<noteq> CHR ''-'' \<and> c \<noteq> CHR ''+'' \<and> \<not> is_space c"
  by (auto simp: is_digit_cases is_space_def)

lemma digit_val_less: "digit_val c < 10"
  by (simp add: digit_val_def)

lemma digit_char_val: "is_digit c \<Longrightarrow> digit_char (digit_val c) = c"
  by (auto simp: is_digit_cases digit_val_def digit_char_def)

lemma digit_val_pos: "is_digit c \<Longrightarrow> c \<noteq> CHR ''0'' \<Longrightarrow> 0 < digit_val c"
  by (auto simp: is_digit_cases digit_val_def)

lemma replace_A_digits: "list_all is_digit ds \<Longrightarrow> replace_A ds = ds"
  unfolding replace_A_def by (induction ds) (auto dest: digit_not_special)

lemma dropWhile_hd: "xs \<noteq> [] \<Longrightarrow> \<not> P (hd xs) \<Longrightarrow> dropWhile P xs = xs"
  by (cases xs) auto

lemma strip_digits:
  assumes "list_all is_digit ds" "ds \<noteq> []"
  shows "strip ds = ds"
proof -
  have "is_digit (hd ds)" using assms by (cases ds) auto
  then have a: "dropWhile is_space ds = ds"
    using assms(2) digit_not_special by (intro dropWhile_hd) auto
  have "is_digit (last ds)" using assms by (simp add: list_all_iff)
  then have "\<not> is_space (hd (rev ds))"
    using assms(2) digit_not_special by (simp add: hd_rev)
  then have "dropWhile is_space (rev ds) = rev ds"
    using assms(2) by (intro dropWhile_hd) auto
  with a show ?thesis by (simp add: strip_def)
qed

lemma literal_body_digits: "list_all is_digit ds \<Longrightarrow> ds \<noteq> [] \<Longrightarrow> literal_body ds"
  by (induction ds rule: literal_body.induct) (auto dest: digit_not_special)

lemma filter_digits: "list_all is_digit ds \<Longrightarrow> filter is_digit ds = ds"
  by (induction ds) auto

lemma py_int_digits:
  assumes "list_all is_digit ds" "ds \<noteq> []"
  shows "py_int ds = Inr (int (digits_value ds))"
proof -
  have "is_digit (hd ds)" using assms by (cases ds) auto
  then have "hd ds \<noteq> CHR ''-''" "hd ds \<noteq> CHR ''+''"
    using digit_not_special by blast+
  then show ?thesis
    using assms by (simp add: py_int_def strip_digits literal_body_digits filter_digits)
qed

lemma composite_dateE:
  assumes "composite_date s"
  obtains ds where "s = CHR ''A'' # ds" "length ds = 7" "list_all is_digit ds"
  using assms by (auto simp: composite_date_def split: list.splits)

lemma numeric_of_composite:
  assumes "composite_date s"
  shows "py_int (replace_A s) = Inr (numeric s)"
proof -
  from assms obtain ds where s: "s = CHR ''A'' # ds" "length ds = 7" "list_all is_digit ds"
    by (rule composite_dateE)
  then have "replace_A s = ds"
    using replace_A_digits[of ds] by (simp add: replace_A_def)
  moreover have "ds \<noteq> []" using s by auto
  ultimately show ?thesis using s by (simp add: py_int_digits numeric_def)
qed

lemma digits_value_snoc: "digits_value (ds @ [c]) = 10 * digits_value ds + digit_val c"
  by (simp add: digits_value_def)

lemma digits_value_pos:
  "list_all is_digit ds \<Longrightarrow> ds \<noteq> [] \<Longrightarrow> hd ds \<noteq> CHR ''0'' \<Longrightarrow> 0 < digits_value ds"
proof (induction ds rule: rev_induct)
  case Nil
  then show ?case by simp
next
  case (snoc c ds)
  show ?case
  proof (cases "ds = []")
    case True
    then show ?thesis using snoc.prems by (simp add: digits_value_def digit_val_pos)
  next
    case False
    then have "0 < digits_value ds" using snoc by simp
    then show ?thesis by (simp add: digits_value_snoc)
  qed
qed

lemma str_nat_digits:
  "list_all is_digit ds \<Longrightarrow> ds \<noteq> [] \<Longrightarrow> hd ds \<noteq> CHR ''0'' \<Longrightarrow> str_nat (digits_value ds) = ds"
proof (induction ds rule: rev_induct)
  case Nil
  then show ?case by simp
next
  case (snoc c ds)
  have c: "is_digit c" using snoc.prems by simp
  show ?case
  proof (cases "ds = []")
    case True
    then have "digits_value (ds @ [c]) = digit_val c" by (simp add: digits_value_def)
    then show ?thesis
      using True c digit_val_less[of c] by (simp add: str_nat.simps digit_char_val)
  next
    case False
    then have ih: "str_nat (digits_value ds) = ds" and pos: "0 < digits_value ds"
      using snoc digits_value_pos[of ds] by simp_all
    have "\<not> digits_value (ds @ [c]) < 10" using pos by (simp add: digits_value_snoc)
    moreover have "digits_value (ds @ [c]) div 10 = digits_value ds"
      using digit_val_less[of c] by (simp add: digits_value_snoc)
    moreover have "digits_value (ds @ [c]) mod 10 = digit_val c"
      using digit_val_less[of c] by (simp add: digits_value_snoc)
    ultimately show ?thesis
      using ih c by (subst str_nat.simps) (simp add: digit_char_val)
  qed
qed

lemma render_catalog_date:
  assumes "catalog_date d"
  shows "CHR ''A'' # py_str (numeric d) = d"
proof -
  from assms obtain ds where d: "d = CHR ''A'' # ds" "length ds = 7" "list_all is_digit ds"
    unfolding catalog_date_def by (auto elim: composite_dateE)
  have "ds \<noteq> []" using d by auto
  moreover have "hd ds \<noteq> CHR ''0''"
    using assms d \<open>ds \<noteq> []\<close> by (cases ds) (auto simp: catalog_date_def)
  ultimately have "str_nat (digits_value ds) = ds" using d by (simp add: str_nat_digits)
  then show ?thesis using d by (simp add: py_str_def numeric_def)
qed

lemma foldl_min_key:
  "\<exists>m. foldl (\<lambda>best y. if f y < f best then y else best) x ys = m
       \<and> m \<in> set (x # ys) \<and> (\<forall>z \<in> set (x # ys). (f m :: int) \<le> f z)"
proof (induction ys arbitrary: x)
  case Nil
  then show ?case by simp
next
  case (Cons y ys)
  let ?b = "if f y < f x then y else x"
  from Cons[of ?b] obtain m where
    m: "foldl (\<lambda>best y. if f y < f best then y else best) ?b ys = m"
       "m \<in> set (?b # ys)" "\<forall>z \<in> set (?b # ys). f m \<le> f z"
    by blast
  have "f m \<le> f ?b" using m(3) by simp
  then have "f m \<le> f x" "f m \<le> f y" by (auto split: if_splits)
  then show ?case using m by (auto split: if_splits)
qed

lemma py_min_key_spec:
  assumes "xs \<noteq> []"
  shows "\<exists>m. py_min_key f xs = Inr m \<and> m \<in> set xs \<and> (\<forall>z \<in> set xs. f m \<le> f z)"
proof -
  from assms obtain x ys where xs: "xs = x # ys" by (cases xs) auto
  show ?thesis using foldl_min_key[of f x ys] by (simp add: py_min_key_def xs)
qed

lemma map_err_total: "\<forall>x \<in> set xs. f x = Inr (g x) \<Longrightarrow> map_err f xs = Inr (map g xs)"
  by (induction xs) auto

lemma find_closest_spec:
  assumes "items \<noteq> []" "\<forall>d \<in> set items. composite_date d" "composite_date pivot"
  shows "\<exists>d \<in> set items.
           find_closest_composite_date items pivot = Inr (CHR ''A'' # py_str (numeric d))
         \<and> (\<forall>z \<in> set items. \<bar>numeric d - numeric pivot\<bar> \<le> \<bar>numeric z - numeric pivot\<bar>)"
proof -
  have its: "map_err (\<lambda>d. py_int (replace_A d)) items = Inr (map numeric items)"
    using assms(2) by (intro map_err_total) (simp add: numeric_of_composite)
  from assms(1) have "map numeric items \<noteq> []" by simp
  from py_min_key_spec[OF this, of "\<lambda>x. \<bar>x - numeric pivot\<bar>"] obtain m where
    m: "py_min_key (\<lambda>x. \<bar>x - numeric pivot\<bar>) (map numeric items) = Inr m"
       "m \<in> set (map numeric items)"
       "\<forall>z \<in> set (map numeric items). \<bar>m - numeric pivot\<bar> \<le> \<bar>z - numeric pivot\<bar>"
    by blast
  from m(2) obtain d where d: "d \<in> set items" "m = numeric d" by auto
  have "find_closest_composite_date items pivot = Inr (CHR ''A'' # py_str (numeric d))"
    using assms(3) its m(1) d(2)
    by (simp add: find_closest_composite_date_def numeric_of_composite)
  moreover have "\<forall>z \<in> set items. \<bar>numeric d - numeric pivot\<bar> \<le> \<bar>numeric z - numeric pivot\<bar>"
    using m(3) d(2) by simp
  ultimately show ?thesis using d(1) by blast
qed

lemma py_index_spec:
  "x \<in> set xs \<Longrightarrow>
     \<exists>i. py_index xs x = Inr i \<and> i < length xs \<and> xs ! i = x \<and> (\<forall>k < i. xs ! k \<noteq> x)"
proof (induction xs)
  case Nil
  then show ?case by simp
next
  case (Cons y ys)
  show ?case
  proof (cases "y = x")
    case True
    then show ?thesis by simp
  next
    case False
    then have "x \<in> set ys" using Cons.prems by simp
    from Cons.IH[OF this] obtain i where
      i: "py_index ys x = Inr i" "i < length ys" "ys ! i = x" "\<forall>k < i. ys ! k \<noteq> x"
      by blast
    have "\<forall>k < Suc i. (y # ys) ! k \<noteq> x"
      using False i(4) by (auto simp: nth_Cons split: nat.splits)
    then show ?thesis using False i by auto
  qed
qed

lemma py_slice_positions:
  "j < length xs \<Longrightarrow> py_slice xs i (Suc j) = map (\<lambda>k. xs ! k) [i ..< Suc j]"
  unfolding py_slice_def by (rule nth_equalityI) (auto simp del: upt_Suc)

lemma find_closest_no_range_error:
  "find_closest_composite_date items pivot \<noteq> Inl (ValueError (InvalidRange m))"
proof -
  have a: "\<And>s. py_int s \<noteq> Inl (ValueError (InvalidRange m))"
    by (simp add: py_int_def Let_def)
  have b: "\<And>xs. map_err (\<lambda>d. py_int (replace_A d)) xs \<noteq> Inl (ValueError (InvalidRange m))"
  proof -
    fix xs :: "string list"
    show "map_err (\<lambda>d. py_int (replace_A d)) xs \<noteq> Inl (ValueError (InvalidRange m))"
      using a by (induction xs) (auto split: sum.splits)
  qed
  have c: "\<And>f (xs :: int list). py_min_key f xs \<noteq> Inl (ValueError (InvalidRange m))"
    by (simp add: py_min_key_def split: list.splits)
  show ?thesis
    using a b c by (auto simp: find_closest_composite_date_def split: sum.splits)
qed

lemma py_index_no_range_error: "py_index xs x \<noteq> Inl (ValueError (InvalidRange m))"
  by (induction xs) (auto split: sum.splits)

lemma find_closest_catalog:
  assumes "items \<noteq> []" "\<forall>d \<in> set items. catalog_date d" "composite_date pivot"
  shows "\<exists>d \<in> set items.
           find_closest_composite_date items pivot = Inr d
         \<and> (\<forall>z \<in> set items. \<bar>numeric d - numeric pivot\<bar> \<le> \<bar>numeric z - numeric pivot\<bar>)"
proof -
  have "\<forall>d \<in> set items. composite_date d" using assms(2) by (simp add: catalog_date_def)
  from find_closest_spec[OF assms(1) this assms(3)] obtain d where
    d: "d \<in> set items"
       "find_closest_composite_date items pivot = Inr (CHR ''A'' # py_str (numeric d))"
       "\<forall>z \<in> set items. \<bar>numeric d - numeric pivot\<bar> \<le> \<bar>numeric z - numeric pivot\<bar>"
    by blast
  have "CHR ''A'' # py_str (numeric d) = d"
    using assms(2) d(1) by (simp add: render_catalog_date)
  then show ?thesis using d by auto
qed

subsection \<open>The example services and the normalizer\<close>

lemmas example_defs =
  raising_def raising_without_request_def answering_def bad_band_def no_detail_def
  quoted_text_def status_in_body_def example_provider_def init_def
  bands_url_def dates_url_def products_url_def py_str_def str_nat.simps digit_char_def
  subset_url_def products_body_def unlisted_first_body_def dates_body_def subset_body_def
  catalog_service_def unlisted_first_service_def html_page_def html_subsets_service_def
  no_dates_service_def catalog_aio_def html_dates_service_def

lemma dict_update_detail:
  "dict_update [(''status'', a), (''title'', b), (''url'', c)] [(''detail'', d)]
     = [(''status'', a), (''title'', b), (''url'', c), (''detail'', d)]"
  by (simp add: dict_update_def)



section \<open>The date interval resolver: properties\<close>

text \<open>
  C4. For composite dates \<open>start_date\<close> and \<open>end_date\<close>, \<open>compute_date_interval\<close> raises its
  invalid-range error exactly when the numeric value of \<open>start_date\<close> exceeds the numeric
  value of \<open>end_date\<close>. The list of dates is arbitrary (it may be empty or hold strings
  that are no dates): the check is made on the raw arguments before the list is looked
  at, and no later step raises that error.
\<close>

theorem invalid_range_iff:
  assumes "composite_date start_date" "composite_date end_date"
  shows "(\<exists>m. compute_date_interval all_dates start_date end_date = Inl (ValueError (InvalidRange m)))
           \<longleftrightarrow> numeric end_date < numeric start_date"
proof (cases "numeric end_date < numeric start_date")
  case True
  then show ?thesis
    using assms by (simp add: compute_date_interval_def numeric_of_composite)
next
  case False
  have "compute_date_interval all_dates start_date end_date \<noteq> Inl (ValueError (InvalidRange m))" for m
    using False assms find_closest_no_range_error py_index_no_range_error
    by (auto simp: compute_date_interval_def numeric_of_composite split: sum.splits)
  with False show ?thesis by blast
qed

theorem invalid_range_iff_witness:
  "composite_date ''A2020340'' \<and> composite_date ''A2020330''
   \<and> numeric ''A2020330'' < numeric ''A2020340''
   \<and> (\<exists>m. compute_date_interval [] ''A2020340'' ''A2020330'' = Inl (ValueError (InvalidRange m)))"
proof -
  have a: "composite_date ''A2020340''" and b: "composite_date ''A2020330''"
    by (simp_all add: composite_date_def is_digit_def)
  have "numeric ''A2020330'' < numeric ''A2020340''"
    by (simp add: numeric_def digits_value_def digit_val_def)
  then show ?thesis using a b invalid_range_iff[OF a b, of "[]"] by simp
qed

text \<open>
  On catalog dates the closest date is found as the docstring says. For a non-empty list
  of catalog dates and a composite date \<open>pivot\<close>, \<open>_find_closest_composite_date\<close> returns
  an element of the list, and returns \<open>pivot\<close> itself when \<open>pivot\<close> is in the list.
\<close>

theorem find_closest_in_list:
  assumes "items \<noteq> []" "\<forall>d \<in> set items. catalog_date d" "composite_date pivot"
  shows "\<exists>r. find_closest_composite_date items pivot = Inr r \<and> r \<in> set items
            \<and> (pivot \<in> set items \<longrightarrow> r = pivot)"
proof -
  from find_closest_catalog[OF assms] obtain d where
    d: "d \<in> set items" "find_closest_composite_date items pivot = Inr d"
       "\<forall>z \<in> set items. \<bar>numeric d - numeric pivot\<bar> \<le> \<bar>numeric z - numeric pivot\<bar>"
    by blast
  have "d = pivot" if "pivot \<in> set items"
  proof -
    have "\<bar>numeric d - numeric pivot\<bar> \<le> 0" using d(3) that by fastforce
    then have "CHR ''A'' # py_str (numeric d) = CHR ''A'' # py_str (numeric pivot)" by simp
    then show ?thesis using assms(2) d(1) that by (simp add: render_catalog_date)
  qed
  then show ?thesis using d by auto
qed

theorem find_closest_in_list_witness:
  "[''A2020330'', ''A2020337'', ''A2020345''] \<noteq> []
   \<and> list_all catalog_date [''A2020330'', ''A2020337'', ''A2020345'']
   \<and> composite_date ''A2020337''
   \<and> (\<exists>r. find_closest_composite_date [''A2020330'', ''A2020337'', ''A2020345''] ''A2020337'' = Inr r
          \<and> r \<in> set [''A2020330'', ''A2020337'', ''A2020345'']
          \<and> (''A2020337'' \<in> set [''A2020330'', ''A2020337'', ''A2020345''] \<longrightarrow> r = ''A2020337''))"
proof -
  have h1: "[''A2020330'', ''A2020337'', ''A2020345''] \<noteq> []" by simp
  have h2: "\<forall>d \<in> set [''A2020330'', ''A2020337'', ''A2020345'']. catalog_date d"
    by (simp add: catalog_date_def composite_date_def is_digit_def)
  have h3: "composite_date ''A2020337''"
    by (simp add: composite_date_def is_digit_def)
  have "list_all catalog_date [''A2020330'', ''A2020337'', ''A2020345'']"
    using h2 by (simp add: list_all_iff)
  then show ?thesis using h1 h3 find_closest_in_list[OF h1 h2 h3] by blast
qed

text \<open>
  C6. The docstring of \<open>_find_closest_composite_date\<close> promises the date in \<open>items\<close> that is
  the closest to \<open>pivot\<close>. The result is rendered by \<open>f'A{closest}'\<close> from the integer, which
  has lost the zero padding: for the list that holds the composite date \<open>A0999001\<close> alone
  and that date as pivot, the function returns \<open>A999001\<close>, which is neither an element of
  the list nor the pivot.
\<close>

theorem find_closest_drops_leading_zero:
  "composite_date ''A0999001''
   \<and> find_closest_composite_date [''A0999001''] ''A0999001'' = Inr ''A999001''
   \<and> ''A999001'' \<notin> set [''A0999001'']
   \<and> ''A999001'' \<noteq> ''A0999001''"
  by (simp add: composite_date_def find_closest_composite_date_def py_int_def replace_A_def
        strip_def is_space_def is_digit_def digits_value_def digit_val_def py_min_key_def
        py_str_def str_nat.simps digit_char_def)

text \<open>
  C5, as the code has it. For a non-empty list of catalog dates and composite dates
  \<open>start_date\<close> and \<open>end_date\<close> with \<open>numeric start_date \<le> numeric end_date\<close>, the interval
  is the list of the elements of \<open>all_dates\<close> at the positions \<open>i, \<dots>, j\<close>, where \<open>i\<close> is
  the (first) position of the date closest to \<open>start_date\<close> and \<open>j\<close> the (first) position of
  the date closest to \<open>end_date\<close>.
\<close>

theorem interval_is_slice:
  assumes "all_dates \<noteq> []" "\<forall>d \<in> set all_dates. catalog_date d"
    and "composite_date start_date" "composite_date end_date"
    and "numeric start_date \<le> numeric end_date"
  shows "\<exists>a b i j.
           find_closest_composite_date all_dates start_date = Inr a
         \<and> find_closest_composite_date all_dates end_date = Inr b
         \<and> py_index all_dates a = Inr i \<and> i < length all_dates \<and> all_dates ! i = a
         \<and> py_index all_dates b = Inr j \<and> j < length all_dates \<and> all_dates ! j = b
         \<and> compute_date_interval all_dates start_date end_date
             = Inr (map (\<lambda>k. all_dates ! k) [i ..< Suc j])"
proof -
  from find_closest_catalog[OF assms(1,2,3)] obtain a where
    a: "find_closest_composite_date all_dates start_date = Inr a" "a \<in> set all_dates" by blast
  from find_closest_catalog[OF assms(1,2,4)] obtain b where
    b: "find_closest_composite_date all_dates end_date = Inr b" "b \<in> set all_dates" by blast
  from py_index_spec[OF a(2)] obtain i where
    i: "py_index all_dates a = Inr i" "i < length all_dates" "all_dates ! i = a" by blast
  from py_index_spec[OF b(2)] obtain j where
    j: "py_index all_dates b = Inr j" "j < length all_dates" "all_dates ! j = b" by blast
  have "compute_date_interval all_dates start_date end_date
          = Inr (map (\<lambda>k. all_dates ! k) [i ..< Suc j])"
    using assms(3,4,5) a(1) b(1) i(1) j(1,2)
    by (simp add: compute_date_interval_def numeric_of_composite py_slice_positions
          del: upt_Suc)
  then show ?thesis using a(1) b(1) i j by blast
qed

text \<open>
  The scenario of the specification: the start snaps to \<open>A2020330\<close>, the end to
  \<open>A2020337\<close>, and the interval is these two dates.
\<close>

theorem interval_is_slice_witness:
  "[''A2020330'', ''A2020337'', ''A2020345''] \<noteq> []
   \<and> list_all catalog_date [''A2020330'', ''A2020337'', ''A2020345'']
   \<and> composite_date ''A2020331'' \<and> composite_date ''A2020340''
   \<and> numeric ''A2020331'' \<le> numeric ''A2020340''
   \<and> find_closest_composite_date [''A2020330'', ''A2020337'', ''A2020345''] ''A2020331''
       = Inr ''A2020330''
   \<and> find_closest_composite_date [''A2020330'', ''A2020337'', ''A2020345''] ''A2020340''
       = Inr ''A2020337''
   \<and> compute_date_interval [''A2020330'', ''A2020337'', ''A2020345''] ''A2020331'' ''A2020340''
       = Inr [''A2020330'', ''A2020337'']"
proof -
  let ?D = "[''A2020330'', ''A2020337'', ''A2020345'']"
  have h1: "?D \<noteq> []" by simp
  have h2: "\<forall>d \<in> set ?D. catalog_date d"
    by (simp add: catalog_date_def composite_date_def is_digit_def)
  have h3: "composite_date ''A2020331''" and h4: "composite_date ''A2020340''"
    by (simp_all add: composite_date_def is_digit_def)
  have h5: "numeric ''A2020331'' \<le> numeric ''A2020340''"
    by (simp add: numeric_def digits_value_def digit_val_def)
  have s: "find_closest_composite_date ?D ''A2020331'' = Inr ''A2020330''"
    by (simp add: find_closest_composite_date_def py_int_def replace_A_def
          strip_def is_space_def is_digit_def digits_value_def digit_val_def py_min_key_def
          py_str_def str_nat.simps digit_char_def)
  have e: "find_closest_composite_date ?D ''A2020340'' = Inr ''A2020337''"
    by (simp add: find_closest_composite_date_def py_int_def replace_A_def
          strip_def is_space_def is_digit_def digits_value_def digit_val_def py_min_key_def
          py_str_def str_nat.simps digit_char_def)
  from interval_is_slice[OF h1 h2 h3 h4 h5] obtain i j where
    ij: "py_index ?D ''A2020330'' = Inr i" "py_index ?D ''A2020337'' = Inr j"
        "compute_date_interval ?D ''A2020331'' ''A2020340'' = Inr (map (\<lambda>k. ?D ! k) [i ..< Suc j])"
    unfolding s e by auto
  have "i = 0" "j = 1" using ij(1,2) by simp_all
  then have "compute_date_interval ?D ''A2020331'' ''A2020340'' = Inr [''A2020330'', ''A2020337'']"
    using ij(3) by (simp add: upt_rec)
  moreover have "list_all catalog_date ?D"
    using h2 by (simp add: list_all_iff)
  ultimately show ?thesis using h1 h3 h4 h5 s e by blast
qed

text \<open>
  C5 as stated fails for the empty list, where \<open>min()\<close> raises, and for a list that holds
  a date whose first digit is \<open>0\<close>, where the closest date is not found in the list.
\<close>

theorem interval_counterexample:
  "composite_date ''A2020331'' \<and> composite_date ''A2020340''
   \<and> numeric ''A2020331'' \<le> numeric ''A2020340''
   \<and> compute_date_interval [] ''A2020331'' ''A2020340'' = Inl (ValueError EmptySequence)
   \<and> composite_date ''A0999001''
   \<and> compute_date_interval [''A0999001''] ''A0999001'' ''A0999001''
       = Inl (ValueError (NotInList ''A999001''))"
  by (simp add: composite_date_def numeric_def compute_date_interval_def
        find_closest_composite_date_def py_int_def replace_A_def
        strip_def is_space_def is_digit_def digits_value_def digit_val_def py_min_key_def
        py_str_def str_nat.simps digit_char_def)

section \<open>The response normalizer: properties\<close>

text \<open>
  C1, as the code has it. When the attempt raises an exception that carries its request
  (and, for an \<open>HTTPError\<close>, no response), \<open>_response\<close> returns the mapping with the title of
  the failure category, the URL of that request and the detail \<open>Exception for <url>\<close>; the
  status is 777 for a connection error, a timeout and an ambiguous exception, and 400 for
  an \<open>HTTPError\<close>.
\<close>

theorem transport_failure_normalized:
  assumes "w query = Raises e"
    and "caught_as e = HTTPError \<longrightarrow> exc_response e = None"
    and "exc_request_url e = Some u"
  shows "fst (response w query p) =
           Inr (JObj [(''status'', JInt (if caught_as e = HTTPError then 400 else 777)),
                      (''title'', JStr (case caught_as e of
                                          HTTPError \<Rightarrow> ''HTTP ERROR''
                                        | ConnectionError \<Rightarrow> ''CONNECTION ERROR''
                                        | Timeout \<Rightarrow> ''TIMEOUT ERROR''
                                        | RequestException \<Rightarrow> ''AMBIGUOUS ERROR'')),
                      (''url'', JStr u),
                      (''detail'', JStr (''Exception for '' @ u))])"
  using assms
  by (cases "caught_as e") (simp_all add: response_def error_fault_handling_def)

text \<open>The scenario of the specification: a connection failure on \<open>dates\<close>.\<close>

theorem transport_failure_normalized_witness:
  "fst (dates (raising ConnectionError) ''MOD13Q1'' ''41.84936'' ''13.58814'' example_provider)
     = Inr (JObj [(''status'', JInt 777),
                  (''title'', JStr ''CONNECTION ERROR''),
                  (''url'', JStr dates_url),
                  (''detail'', JStr (''Exception for '' @ dates_url))])"
  using transport_failure_normalized
          [of "raising ConnectionError" dates_url
              "\<lparr> caught_as = ConnectionError, exc_response = None,
                 exc_request_url = Some dates_url \<rparr>"
              dates_url example_provider]
  by (simp add: dates_def example_defs)

text \<open>
  C1 as stated fails for an \<open>HTTPError\<close> without a response, which is given the status 400,
  and for an exception without a request, on which the handler itself raises.
\<close>

theorem http_error_status_counterexample:
  "fst (bands (raising HTTPError) ''MOD13Q1'' example_provider)
     = Inr (JObj [(''status'', JInt 400),
                  (''title'', JStr ''HTTP ERROR''),
                  (''url'', JStr bands_url),
                  (''detail'', JStr (''Exception for '' @ bands_url))])
   \<and> fst (bands (raising_without_request RequestException) ''MOD13Q1'' example_provider)
     = Inl AttributeError"
  by (simp add: bands_def response_def error_fault_handling_def example_defs)

text \<open>
  C2, as the code has it. For a response that is not \<open>ok\<close> and whose body decodes,
  \<open>_response\<close> returns the mapping with the status code, the reason phrase, the URL of the
  response, and a detail chosen by the type of the decoded body: for an object its
  \<open>detail\<close> member, \<open>None\<close> when it has none; for a string the text of the body without
  trailing line feeds and without double quotes; \<open>something wrong\<close> otherwise.
\<close>

theorem http_error_normalized:
  assumes "w query = Returns r" "\<not> ok r" "json r = Some body"
  shows "fst (response w query p) =
           Inr (JObj [(''status'', JInt (status_code r)),
                      (''title'', JStr (reason r)),
                      (''url'', JStr (url r)),
                      (''detail'',
                         case body of
                           JObj kv \<Rightarrow> (case map_of kv ''detail'' of None \<Rightarrow> JNull | Some v \<Rightarrow> v)
                         | JStr s \<Rightarrow> JStr (replace_quote (rstrip_newline (body_text r)))
                         | _ \<Rightarrow> JStr ''something wrong'')])"
  using assms
  by (cases body) (simp_all add: response_def response_fault_handling_def dict_update_detail)

text \<open>The scenario of the specification: HTTP 500 with the body \<open>{"detail": "bad band"}\<close>.\<close>

theorem http_error_normalized_witness:
  "fst (response bad_band dates_url example_provider)
     = Inr (JObj [(''status'', JInt 500),
                  (''title'', JStr ''INTERNAL SERVER ERROR''),
                  (''url'', JStr dates_url),
                  (''detail'', JStr ''bad band'')])"
  using http_error_normalized
          [of bad_band dates_url _ "JObj [(''detail'', JStr ''bad band'')]" example_provider]
  by (simp add: example_defs)

text \<open>
  C2 as stated fails for an object without a \<open>detail\<close> member, whose detail is \<open>None\<close> and
  not \<open>something wrong\<close>, and for a string body, whose detail is not the raw text.
\<close>

theorem detail_counterexample:
  \<open>fst (response no_detail dates_url example_provider)
     = Inr (JObj [(''status'', JInt 500),
                  (''title'', JStr ''INTERNAL SERVER ERROR''),
                  (''url'', JStr dates_url),
                  (''detail'', JNull)])
   \<and> fst (response quoted_text dates_url example_provider)
     = Inr (JObj [(''status'', JInt 404),
                  (''title'', JStr ''NOT FOUND''),
                  (''url'', JStr dates_url),
                  (''detail'', JStr ''No data'')])
   \<and> ''No data'' \<noteq> ''"No data"'' @ [CHR 0x0A]\<close>
  by (simp add: response_def response_fault_handling_def dict_update_def
        rstrip_newline_def replace_quote_def example_defs)

section \<open>The concurrency limit: properties\<close>

lemma py_range_negative_step:
  "step < 0 \<Longrightarrow> 0 \<le> stop \<Longrightarrow> py_range 0 stop step = Inr []"
proof -
  assume a: "step < 0" "0 \<le> stop"
  then have "\<not> 0 < (0 - stop - step - 1) div (- step)"
    using pos_imp_zdiv_pos_iff[of "- step" "0 - stop - step - 1"] by simp
  then show ?thesis using a by (simp add: py_range_def)
qed

text \<open>
  C8. Setting the limit to a value above 10 raises a \<open>ValueError\<close> and leaves the provider
  as it was; setting it to a value of at most 10 succeeds, and the accessor then returns
  that value.
\<close>

theorem concurrency_limit_setter:
  "(10 < n \<longrightarrow> (\<exists>e. fst (set_maximum_concurrent_number n p) = Inl (ValueError e))
               \<and> snd (set_maximum_concurrent_number n p) = p)
 \<and> (n \<le> 10 \<longrightarrow> fst (set_maximum_concurrent_number n p) = Inr ()
               \<and> maximum_concurrent_number (snd (set_maximum_concurrent_number n p)) = n)"
  by (simp add: set_maximum_concurrent_number_def maximum_concurrent_number_def)

theorem concurrency_limit_setter_witness:
  "(\<exists>e. fst (set_maximum_concurrent_number 11 example_provider) = Inl (ValueError e))
   \<and> snd (set_maximum_concurrent_number 11 example_provider) = example_provider
   \<and> fst (set_maximum_concurrent_number 10 example_provider) = Inr ()
   \<and> maximum_concurrent_number (snd (set_maximum_concurrent_number 10 example_provider)) = 10
   \<and> maximum_concurrent_number (snd (set_maximum_concurrent_number 8 example_provider)) = 8"
  using concurrency_limit_setter[of 11 example_provider]
        concurrency_limit_setter[of 10 example_provider]
        concurrency_limit_setter[of 8 example_provider]
  by simp

text \<open>
  C10. The setter has no lower bound: every value of at most 10 is stored and returned by
  the accessor. With the stored value 0 the chunk-splitting expression raises (the step
  of \<open>range\<close> is zero); with a negative stored value it produces no chunk at all, whatever
  the dates are.
\<close>

theorem no_lower_bound:
  assumes "n \<le> 10"
  shows "fst (set_maximum_concurrent_number n p) = Inr ()
       \<and> maximum_concurrent_number (snd (set_maximum_concurrent_number n p)) = n
       \<and> (n = 0 \<longrightarrow> chunks (maximum_concurrent_number (snd (set_maximum_concurrent_number n p)))
                       time_dates = Inl (ValueError ZeroStep))
       \<and> (n < 0 \<longrightarrow> chunks (maximum_concurrent_number (snd (set_maximum_concurrent_number n p)))
                       time_dates = Inr [])"
  using assms
  by (simp add: set_maximum_concurrent_number_def maximum_concurrent_number_def chunks_def
        py_range_negative_step) (simp add: py_range_def)

theorem no_lower_bound_witness:
  "fst (set_maximum_concurrent_number 0 example_provider) = Inr ()
   \<and> maximum_concurrent_number (snd (set_maximum_concurrent_number 0 example_provider)) = 0
   \<and> chunks (maximum_concurrent_number (snd (set_maximum_concurrent_number 0 example_provider)))
        [''A2020330'', ''A2020337''] = Inl (ValueError ZeroStep)
   \<and> fst (set_maximum_concurrent_number (- 3) example_provider) = Inr ()
   \<and> maximum_concurrent_number (snd (set_maximum_concurrent_number (- 3) example_provider)) = - 3
   \<and> chunks (maximum_concurrent_number (snd (set_maximum_concurrent_number (- 3) example_provider)))
        [''A2020330'', ''A2020337''] = Inr []"
proof -
  have a: "(0::int) \<le> 10" and b: "(- 3::int) \<le> 10" and c: "(- 3::int) < 0" by simp_all
  from no_lower_bound[OF a, of example_provider "[''A2020330'', ''A2020337'']"]
       no_lower_bound[OF b, of example_provider "[''A2020330'', ''A2020337'']"] c
  show ?thesis by blast
qed

section \<open>The sequential batch orchestrator: properties\<close>


lemma response_state:
  assumes "response w q p = (r, p1)"
  shows "base_url p1 = base_url p" and "sent p1 = sent p @ [q]"
    and "MAXIMUM_CONCURRENT_NUMBER p1 = MAXIMUM_CONCURRENT_NUMBER p"
proof -
  have "base_url (snd (response w q p)) = base_url p"
    by (simp add: response_def Let_def split: attempt.splits exception_class.splits option.splits)
  then show "base_url p1 = base_url p" using assms by simp
  have "sent (snd (response w q p)) = sent p @ [q]"
    by (simp add: response_def Let_def split: attempt.splits exception_class.splits option.splits)
  then show "sent p1 = sent p @ [q]" using assms by simp
  have "MAXIMUM_CONCURRENT_NUMBER (snd (response w q p)) = MAXIMUM_CONCURRENT_NUMBER p"
    by (simp add: response_def Let_def split: attempt.splits exception_class.splits option.splits)
  then show "MAXIMUM_CONCURRENT_NUMBER p1 = MAXIMUM_CONCURRENT_NUMBER p" using assms by simp
qed






















section \<open>The availability report: properties\<close>

lemma upper_char_not_lower: "upper_char c \<notin> set ''abcdefghijklmnopqrstuvwxyz''"
  by (simp add: upper_char_def)

lemma upper_no_lower: "ch \<in> set ''abcdefghijklmnopqrstuvwxyz'' \<Longrightarrow> ch \<notin> set (upper x)"
  using upper_char_not_lower by (auto simp: upper_def)

lemma upper_not_Daymet: "upper x \<noteq> ''Daymet''"
proof
  assume "upper x = ''Daymet''"
  then have "CHR ''a'' \<in> set (upper x)" by simp
  then show False using upper_no_lower[of "CHR ''a''" x] by simp
qed

lemma member_of_vocabulary:
  assumes "upper x \<in> all_products"
  shows "map_of Products (upper x) = Some (upper x)"
proof -
  have "c \<in> all_products \<Longrightarrow> c \<noteq> ''Daymet'' \<Longrightarrow> map_of Products c = Some c" for c
    unfolding all_products_def Products_def by auto
  then show ?thesis using assms upper_not_Daymet by blast
qed

lemma first_product_unlisted:
  assumes "map_of kv ''product'' = Some (JStr code)" "upper code \<notin> all_products"
  shows "for_product_in w latitude longitude reference_date (JObj kv # later) p
           = (Inr (product_report reference_date [] []), p)"
  using assms by (simp add: py_get_def)

lemma first_product_listed:
  assumes "map_of kv ''product'' = Some (JStr code)" "upper code \<in> all_products"
    and "dates w (upper code) latitude longitude p = (r, p')"
  shows "for_product_in w latitude longitude reference_date (JObj kv # later) p
           = (case r of
                Inl e \<Rightarrow> (Inl e, p')
              | Inr product_date \<Rightarrow>
             (case py_in ''status'' product_date of
                Inl e \<Rightarrow> (Inl e, p')
              | Inr False \<Rightarrow>
                  (case py_get product_date ''dates'' of
                     Inl e \<Rightarrow> (Inl e, p')
                   | Inr slot \<Rightarrow>
                  (case py_iter slot of
                     Inl e \<Rightarrow> (Inl e, p')
                   | Inr ds \<Rightarrow>
                  (case map_err (\<lambda>d. py_get d ''modis_date'') ds of
                     Inl e \<Rightarrow> (Inl e, p')
                   | Inr product_dates \<Rightarrow>
                       if JStr reference_date \<in> set product_dates
                       then (Inr (product_report reference_date [JObj kv] []), p')
                       else (Inr (product_report reference_date []
                                    [JObj (dict_update kv
                                       (add_dict p' reference_date (upper code)
                                          latitude longitude))]), p'))))
              | Inr True \<Rightarrow>
                  (case product_date of
                     JObj kv' \<Rightarrow>
                       (Inr (product_report reference_date [] [JObj (dict_update kv kv')]), p')
                   | _ \<Rightarrow> (Inl TypeError, p'))))"
  using assms member_of_vocabulary[OF assms(2)]
  by (simp add: py_get_def split: sum.splits bool.splits jvalue.splits)

lemma first_product_state:
  assumes "map_of kv ''product'' = Some (JStr code)" "upper code \<in> all_products"
  shows "snd (for_product_in w latitude longitude reference_date (JObj kv # later) p)
           = snd (dates w (upper code) latitude longitude p)"
proof -
  obtain r p' where d: "dates w (upper code) latitude longitude p = (r, p')"
    by (cases "dates w (upper code) latitude longitude p")
  show ?thesis
    unfolding first_product_listed[OF assms d] d
    by (simp split: sum.splits bool.splits jvalue.splits)
qed

lemma first_product_report:
  assumes "map_of kv ''product'' = Some (JStr code)"
    and "fst (for_product_in w latitude longitude reference_date (JObj kv # later) p) = Inr report"
  shows "report = product_report reference_date [] []
       \<or> report = product_report reference_date [JObj kv] []
       \<or> (\<exists>extra. report = product_report reference_date [] [JObj (dict_update kv extra)])"
proof (cases "upper code \<in> all_products")
  case False
  show ?thesis
    using assms(2) unfolding first_product_unlisted[OF assms(1) False] by simp
next
  case True
  obtain r p' where d: "dates w (upper code) latitude longitude p = (r, p')"
    by (cases "dates w (upper code) latitude longitude p")
  show ?thesis
    using assms(2) unfolding first_product_listed[OF assms(1) True d]
    by (auto split: sum.splits bool.splits jvalue.splits if_splits)
qed

text \<open>
  C3, as the code has it. Let \<open>products\<close> return a payload without \<open>status\<close> whose product
  list starts with a record of the product \<open>code\<close>. When \<open>code\<close> in upper case is not a value
  of \<open>Products\<close>, the report classifies no product. When it is, the dates of that product
  are requested: if the call raises, the exception leaves the function; if it returns an
  error mapping, the report holds the record of the first product under \<open>not_available\<close>,
  with the members of the error stored into it; if it returns a list of records, the
  report holds that record under \<open>available\<close> when the reference date is among the dates,
  and under \<open>not_available\<close>, with error fields stored into it, when it is not. Whatever
  the outcome, returned or raised, the requests sent are the products request and, for a
  product of the vocabulary, the dates request of the first product, and no other; and a
  report that is returned has no entry but that of the first product.
\<close>

theorem first_product_only:
  assumes "products w [] [] p = (Inr products_result, p')"
    and "py_in ''status'' products_result = Inr False"
    and "py_get products_result ''products'' = Inr (JArr (JObj kv # later))"
    and "map_of kv ''product'' = Some (JStr code)"
  shows
    "(upper code \<notin> all_products \<longrightarrow>
        available_products_by_date w latitude longitude reference_date p
          = (Inr (product_report reference_date [] []), p'))
   \<and> (upper code \<in> all_products \<longrightarrow>
        (\<forall>e p''. dates w (upper code) latitude longitude p' = (Inl e, p'') \<longrightarrow>
           available_products_by_date w latitude longitude reference_date p = (Inl e, p''))
      \<and> (\<forall>product_date p''.
           dates w (upper code) latitude longitude p' = (Inr product_date, p'') \<longrightarrow>
             (\<forall>kv'. product_date = JObj kv' \<longrightarrow> ''status'' \<in> set (map fst kv') \<longrightarrow>
                available_products_by_date w latitude longitude reference_date p
                  = (Inr (product_report reference_date [] [JObj (dict_update kv kv')]), p''))
           \<and> (\<forall>ds product_dates.
                py_in ''status'' product_date = Inr False \<longrightarrow>
                py_get product_date ''dates'' = Inr (JArr ds) \<longrightarrow>
                map_err (\<lambda>d. py_get d ''modis_date'') ds = Inr product_dates \<longrightarrow>
                available_products_by_date w latitude longitude reference_date p
                  = (Inr (if JStr reference_date \<in> set product_dates
                          then product_report reference_date [JObj kv] []
                          else product_report reference_date []
                                 [JObj (dict_update kv
                                    (add_dict p'' reference_date (upper code)
                                       latitude longitude))]),
                     p''))))
   \<and> sent (snd (available_products_by_date w latitude longitude reference_date p))
       = sent p @ products_query (base_url p) [] []
                # (if upper code \<in> all_products
                   then [dates_query (base_url p) (upper code) latitude longitude] else [])
   \<and> (\<forall>report.
         fst (available_products_by_date w latitude longitude reference_date p) = Inr report \<longrightarrow>
           report = product_report reference_date [] []
         \<or> report = product_report reference_date [JObj kv] []
         \<or> (\<exists>extra. report = product_report reference_date [] [JObj (dict_update kv extra)]))"
proof -
  have run: "available_products_by_date w latitude longitude reference_date p
               = for_product_in w latitude longitude reference_date (JObj kv # later) p'"
    using assms(1,2,3) by (simp add: available_products_by_date_def py_iter_def)
  have s1: "sent p' = sent p @ [products_query (base_url p) [] []]"
    and b1: "base_url p' = base_url p"
    using assms(1) response_state(1,2)[of w "products_query (base_url p) [] []" p]
    by (simp_all add: products_def products_query_def)
  have out: "available_products_by_date w latitude longitude reference_date p
          = (Inr (product_report reference_date [] []), p')"
    if "upper code \<notin> all_products"
    unfolding run using assms(4) that by (rule first_product_unlisted)
  have exc: "available_products_by_date w latitude longitude reference_date p = (Inl e, p'')"
    if "upper code \<in> all_products" "dates w (upper code) latitude longitude p' = (Inl e, p'')"
    for e p''
    unfolding run first_product_listed[OF assms(4) that] by simp
  have err: "available_products_by_date w latitude longitude reference_date p
             = (Inr (product_report reference_date [] [JObj (dict_update kv kv')]), p'')"
    if "upper code \<in> all_products"
       "dates w (upper code) latitude longitude p' = (Inr product_date, p'')"
       "product_date = JObj kv'" "''status'' \<in> set (map fst kv')" for kv' product_date p''
  proof -
    have "py_in ''status'' product_date = Inr True" using that(3,4) by (simp add: py_in_def)
    then show ?thesis
      unfolding run first_product_listed[OF assms(4) that(1,2)] using that(3) by simp
  qed
  have ok: "available_products_by_date w latitude longitude reference_date p
             = (Inr (if JStr reference_date \<in> set product_dates
                     then product_report reference_date [JObj kv] []
                     else product_report reference_date []
                            [JObj (dict_update kv
                               (add_dict p'' reference_date (upper code) latitude longitude))]),
                p'')"
    if "upper code \<in> all_products"
       "dates w (upper code) latitude longitude p' = (Inr product_date, p'')"
       "py_in ''status'' product_date = Inr False"
       "py_get product_date ''dates'' = Inr (JArr ds)"
       "map_err (\<lambda>d. py_get d ''modis_date'') ds = Inr product_dates"
    for ds product_dates product_date p''
    unfolding run first_product_listed[OF assms(4) that(1,2)] using that(3,4,5)
    by (simp add: py_iter_def)
  have snt: "sent (snd (available_products_by_date w latitude longitude reference_date p))
       = sent p @ products_query (base_url p) [] []
                # (if upper code \<in> all_products
                   then [dates_query (base_url p) (upper code) latitude longitude] else [])"
  proof (cases "upper code \<in> all_products")
    case False
    then show ?thesis using out s1 by simp
  next
    case True
    have "sent (snd (dates w (upper code) latitude longitude p'))
            = sent p' @ [dates_query (base_url p) (upper code) latitude longitude]"
      using b1 response_state(2)[of w "dates_query (base_url p') (upper code) latitude longitude" p']
      by (simp add: dates_def dates_query_def prod_eq_iff)
    then show ?thesis
      unfolding run first_product_state[OF assms(4) True] using True s1 by simp
  qed
  have rep: "report = product_report reference_date [] []
         \<or> report = product_report reference_date [JObj kv] []
         \<or> (\<exists>extra. report = product_report reference_date [] [JObj (dict_update kv extra)])"
    if "fst (available_products_by_date w latitude longitude reference_date p) = Inr report"
    for report
    using that unfolding run by (rule first_product_report[OF assms(4)])
  show ?thesis using out exc err ok snt rep by blast
qed

lemma products_catalog:
  "fst (products catalog_service [] [] example_provider) = Inr products_body"
  by (simp add: products_def response_def example_defs)

lemma upper_MOD13Q1: "upper ''MOD13Q1'' = ''MOD13Q1''"
  by (simp add: upper_def upper_char_def)

text \<open>
  On the example service the first product is \<open>MOD13Q1\<close>, which has the reference date:
  the report lists it as available, and the second product, \<open>MOD11A2\<close>, is never asked
  for. On the variant whose dates request is answered by a page that is not JSON the call
  raises, and the second product is not asked for either.
\<close>

theorem first_product_only_witness:
  "fst (available_products_by_date catalog_service ''41.84936'' ''13.58814'' ''A2020337''
          example_provider)
     = Inr (product_report ''A2020337''
              [JObj [(''product'', JStr ''MOD13Q1''), (''frequency'', JStr ''16-Day'')]] [])
   \<and> sent (snd (available_products_by_date catalog_service ''41.84936'' ''13.58814'' ''A2020337''
                   example_provider))
     = [products_url, dates_url]
   \<and> fst (available_products_by_date html_dates_service ''41.84936'' ''13.58814'' ''A2020337''
          example_provider)
     = Inl AttributeError
   \<and> sent (snd (available_products_by_date html_dates_service ''41.84936'' ''13.58814''
                   ''A2020337'' example_provider))
     = [products_url, dates_url]"
proof -
  let ?kv = "[(''product'', JStr ''MOD13Q1''), (''frequency'', JStr ''16-Day'')]"
  let ?later = "[JObj [(''product'', JStr ''MOD11A2''), (''frequency'', JStr ''8-Day'')]]"
  let ?ds = "[JObj [(''calendar_date'', JStr ''2020-12-02''), (''modis_date'', JStr ''A2020337'')],
              JObj [(''calendar_date'', JStr ''2020-11-25''), (''modis_date'', JStr ''A2020330'')],
              JObj [(''calendar_date'', JStr ''2020-12-10''), (''modis_date'', JStr ''A2020345'')]]"
  let ?vals = "[JStr ''A2020337'', JStr ''A2020330'', JStr ''A2020345'']"
  define p' where "p' = snd (products catalog_service [] [] example_provider)"
  define p'' where "p'' = snd (dates catalog_service (upper ''MOD13Q1'') ''41.84936'' ''13.58814'' p')"
  define q' where "q' = snd (products html_dates_service [] [] example_provider)"
  define q'' where "q'' = snd (dates html_dates_service (upper ''MOD13Q1'') ''41.84936'' ''13.58814'' q')"
  have h1: "products catalog_service [] [] example_provider = (Inr products_body, p')"
    using products_catalog unfolding p'_def by (metis prod.collapse)
  have "fst (products html_dates_service [] [] example_provider) = Inr products_body"
    by (simp add: products_def response_def example_defs)
  then have g1: "products html_dates_service [] [] example_provider = (Inr products_body, q')"
    unfolding q'_def by (metis prod.collapse)
  have h2: "py_in ''status'' products_body = Inr False"
    by (simp add: py_in_def products_body_def)
  have h3: "py_get products_body ''products'' = Inr (JArr (JObj ?kv # ?later))"
    by (simp add: py_get_def products_body_def)
  have h4: "map_of ?kv ''product'' = Some (JStr ''MOD13Q1'')" by simp
  have b: "base_url p' = base_url example_provider"
    using h1 unfolding products_def by (rule response_state(1))
  have b': "base_url q' = base_url example_provider"
    using g1 unfolding products_def by (rule response_state(1))
  have "fst (dates catalog_service (upper ''MOD13Q1'') ''41.84936'' ''13.58814'' p') = Inr dates_body"
    by (simp add: upper_MOD13Q1 dates_def response_def b example_defs)
  then have h5: "dates catalog_service (upper ''MOD13Q1'') ''41.84936'' ''13.58814'' p'
                   = (Inr dates_body, p'')"
    unfolding p''_def by (metis prod.collapse)
  have "fst (dates html_dates_service (upper ''MOD13Q1'') ''41.84936'' ''13.58814'' q')
          = Inl AttributeError"
    by (simp add: upper_MOD13Q1 dates_def response_def error_fault_handling_def undecodable_def
          b' example_defs)
  then have g5: "dates html_dates_service (upper ''MOD13Q1'') ''41.84936'' ''13.58814'' q'
                   = (Inl AttributeError, q'')"
    unfolding q''_def by (metis prod.collapse)
  have v: "upper ''MOD13Q1'' \<in> all_products"
    by (simp add: upper_MOD13Q1 all_products_def Products_def)
  have h6: "py_in ''status'' dates_body = Inr False"
    by (simp add: py_in_def dates_body_def)
  have h7: "py_get dates_body ''dates'' = Inr (JArr ?ds)"
    by (simp add: py_get_def dates_body_def)
  have h8: "map_err (\<lambda>d. py_get d ''modis_date'') ?ds = Inr ?vals"
    by (simp add: py_get_def)
  note t = first_product_only[OF h1 h2 h3 h4, of "''41.84936''" "''13.58814''" "''A2020337''"]
  note u = first_product_only[OF g1 h2 h3 h4, of "''41.84936''" "''13.58814''" "''A2020337''"]
  from t v h5 h6 h7 h8 have
    "available_products_by_date catalog_service ''41.84936'' ''13.58814'' ''A2020337'' example_provider
       = (Inr (if JStr ''A2020337'' \<in> set ?vals
               then product_report ''A2020337'' [JObj ?kv] []
               else product_report ''A2020337'' []
                      [JObj (dict_update ?kv
                         (add_dict p'' ''A2020337'' (upper ''MOD13Q1'') ''41.84936'' ''13.58814''))]),
          p'')"
    by blast
  then have 1: "fst (available_products_by_date catalog_service ''41.84936'' ''13.58814''
                       ''A2020337'' example_provider)
                  = Inr (product_report ''A2020337'' [JObj ?kv] [])"
    by simp
  from t v have 2: "sent (snd (available_products_by_date catalog_service ''41.84936''
                       ''13.58814'' ''A2020337'' example_provider)) = [products_url, dates_url]"
    by (simp add: upper_MOD13Q1 products_query_def dates_query_def example_defs)
  from u v g5 have
    "available_products_by_date html_dates_service ''41.84936'' ''13.58814'' ''A2020337''
       example_provider = (Inl AttributeError, q'')"
    by blast
  then have 3: "fst (available_products_by_date html_dates_service ''41.84936'' ''13.58814''
                       ''A2020337'' example_provider) = Inl AttributeError"
    by simp
  from u v have 4: "sent (snd (available_products_by_date html_dates_service ''41.84936''
                       ''13.58814'' ''A2020337'' example_provider)) = [products_url, dates_url]"
    by (simp add: upper_MOD13Q1 products_query_def dates_query_def example_defs)
  from 1 2 3 4 show ?thesis by simp
qed

text \<open>
  C3 as stated fails when the first product is not in the vocabulary: the report
  classifies no product, neither the first nor a later one.
\<close>

theorem unlisted_first_counterexample:
  "fst (available_products_by_date unlisted_first_service ''41.84936'' ''13.58814'' ''A2020337''
          example_provider)
     = Inr (JObj [(''date'', JStr ''A2020337''), (''available'', JArr []),
                  (''not_available'', JArr [])])
   \<and> sent (snd (available_products_by_date unlisted_first_service ''41.84936'' ''13.58814''
                   ''A2020337'' example_provider))
     = [products_url]"
  by (simp add: available_products_by_date_def products_def response_def py_in_def py_get_def
        py_iter_def product_report_def upper_def upper_char_def all_products_def Products_def
        example_defs)

section \<open>The discriminator law\<close>












lemma has_status_iff: "has_status v \<longleftrightarrow> py_in ''status'' v = Inr True"
  by (simp add: has_status_def)














end
